theory Spec2Isabelle
  imports Main
begin

section \<open>The program\<close>

text \<open>
  The repository is one start-up script, \<^verbatim>\<open>src/server.js\<close>:
  \<^verbatim>\<open>
   1  require("dotenv").config();
   2  const express = require("express");
   3  const cors = require("cors");
   4  const sequelize = require("./config/database");
   6  const app = express();
   7  app.use(cors());
   8  app.use(express.json());
  11  app.get("/", (req, res) => res.send("Movie Tracker API is running..."));
  14  sequelize.authenticate()
  15      .then(() => console.log("Database connected..."))
  16      .catch(err => console.log("Error: " + err));
  18  const PORT = process.env.PORT || 5001;
  19  app.listen(PORT, () => console.log(`Server running on port ${PORT}`));
  \<close>
  What the script itself does is embedded from these lines: the choice of the port, the
  order of the layers of the application, the route handler, the two callbacks of the
  database check, and the order of the calls. The libraries it calls (Express, cors,
  Sequelize, Node) are not part of the repository. What they do is modelled under a
  remark that starts with "Modelled from the spec"; two of their decisions, which rest on
  code and data the model does not have, are parameters of the model.
\<close>

section \<open>JavaScript values used by \<^verbatim>\<open>src/server.js\<close>\<close>

text \<open>
  The start-up script handles three kinds of JavaScript value: \<^verbatim>\<open>undefined\<close> (a
  missing property of \<^verbatim>\<open>process.env\<close>), strings (every value of \<^verbatim>\<open>process.env\<close> is a
  string) and the number literal \<^verbatim>\<open>5001\<close>.
\<close>

datatype jsval = JUndefined | JString string | JNumber int

text \<open>JavaScript truthiness: \<^verbatim>\<open>undefined\<close>, the empty string and \<^verbatim>\<open>0\<close> are falsy.\<close>

fun truthy :: "jsval \<Rightarrow> bool" where
  "truthy JUndefined = False"
| "truthy (JString s) = (s \<noteq> [])"
| "truthy (JNumber n) = (n \<noteq> 0)"

text \<open>The operator \<^verbatim>\<open>a || b\<close>: the left operand when it is truthy, the right one otherwise.\<close>

definition js_or :: "jsval \<Rightarrow> jsval \<Rightarrow> jsval" where
  "js_or a b = (if truthy a then a else b)"

text \<open>
  \<^verbatim>\<open>process.env\<close> as the script sees it on line 18, that is after
  \<^verbatim>\<open>require("dotenv").config()\<close> on line 1 has run: a dictionary from names to strings.
  Reading a name that is not there gives \<^verbatim>\<open>undefined\<close>.
\<close>

type_synonym environment = "string \<rightharpoonup> string"

definition env_get :: "environment \<Rightarrow> string \<Rightarrow> jsval" where
  "env_get env k = (case env k of None \<Rightarrow> JUndefined | Some v \<Rightarrow> JString v)"

text \<open>Line 18: \<^verbatim>\<open>const PORT = process.env.PORT || 5001;\<close>\<close>

definition PORT :: "environment \<Rightarrow> jsval" where
  "PORT env = js_or (env_get env ''PORT'') (JNumber 5001)"

text \<open>
  String conversion, as a template literal or \<^verbatim>\<open>"..." + x\<close> performs it. Numbers are
  printed in decimal.
\<close>

function digits :: "nat \<Rightarrow> string" where
  "digits n = (if n < 10 then [''0123456789'' ! n] else digits (n div 10) @ [''0123456789'' ! (n mod 10)])"
  by pat_completeness auto
termination
  by (relation "measure id") auto

declare digits.simps [simp del]

fun js_to_string :: "jsval \<Rightarrow> string" where
  "js_to_string JUndefined = ''undefined''"
| "js_to_string (JString s) = s"
| "js_to_string (JNumber n) = (if n < 0 then CHR ''-'' # digits (nat (- n)) else digits (nat n))"

section \<open>Requests and responses\<close>

text \<open>
  What Node hands to a handler as \<^verbatim>\<open>req\<close>: the method, the path, the headers (a dictionary
  with lower-case names), the body as it arrived (\<open>None\<close> for a request without a body),
  and \<^verbatim>\<open>req.body\<close>, which is \<^verbatim>\<open>undefined\<close> (\<open>None\<close>) until a body parser has filled it
  in.
\<close>

datatype json =
    JNull
  | JBool bool
  | JNum string
  | JStr string
  | JArr "json list"
  | JObj "(string \<times> json) list"

record request =
  req_method :: string
  req_path :: string
  req_headers :: "string \<rightharpoonup> string"
  req_raw :: "string option"
  req_body :: "json option"

text \<open>
  What a handler builds through \<^verbatim>\<open>res\<close>: the status code, the headers set so far and
  the body. A response starts with the success status \<^verbatim>\<open>200\<close>, which is what the route of
  line 11 answers with although it sets no status.
\<close>

record response =
  statusCode :: nat
  res_headers :: "string \<rightharpoonup> string"
  res_body :: string

definition fresh_response :: response where
  "fresh_response = \<lparr>statusCode = 200, res_headers = Map.empty, res_body = []\<rparr>"

text \<open>
  A middleware or a route handler is a function of \<^verbatim>\<open>(req, res)\<close>. It either passes the
  request on (\<^verbatim>\<open>next()\<close>), ends the response, or reports an error (\<^verbatim>\<open>next(err)\<close>) that
  carries an HTTP status.
\<close>

datatype step =
    Next request response
  | Ended response
  | Failed nat response

type_synonym handler = "request \<Rightarrow> response \<Rightarrow> step"


section \<open>What the libraries decide\<close>

text \<open>
  Two decisions of the libraries rest on code and data that the model does not have.
  \<^item> What \<^verbatim>\<open>express.json()\<close> makes of a request with a body: it looks at the content
    type, the charset, the encoding and the size, and then at the text. It leaves the
    request alone, or stores the parsed value in \<^verbatim>\<open>req.body\<close>, or refuses the request
    with an HTTP status.
  \<^item> Whether Express finds a conditional request fresh: it compares the request's
    headers with the entity tag it computes for the response.
  Both are parameters of the model: a theorem about \<open>lib\<close> holds whatever the two
  functions are.
\<close>

datatype verdict = Skipped | Parsed json | Refused nat

record library =
  lib_parse :: "request \<Rightarrow> verdict"
  lib_fresh :: "(string \<rightharpoonup> string) \<Rightarrow> bool"

text \<open>
  The status with which the body parser refuses a request, if it does. A request without
  a body is never looked at.
\<close>

definition refusal :: "library \<Rightarrow> request \<Rightarrow> nat option" where
  "refusal lib req =
     (case req_raw req of
        None \<Rightarrow> None
      | Some raw \<Rightarrow> (case lib_parse lib req of Refused code \<Rightarrow> Some code | _ \<Rightarrow> None))"

definition lets_through :: "library \<Rightarrow> request \<Rightarrow> bool" where
  "lets_through lib req = (refusal lib req = None)"

text \<open>
  \<^verbatim>\<open>req.fresh\<close>: only a \<^verbatim>\<open>GET\<close> or \<^verbatim>\<open>HEAD\<close> request can be fresh; the responses of this
  program carry no \<^verbatim>\<open>Last-Modified\<close> header, so only a request with an \<^verbatim>\<open>If-None-Match\<close>
  header can be, and for such a request the library decides.
\<close>

definition not_modified :: "library \<Rightarrow> request \<Rightarrow> bool" where
  "not_modified lib req =
     ((req_method req = ''GET'' \<or> req_method req = ''HEAD'') \<and>
      req_headers req ''if-none-match'' \<noteq> None \<and>
      lib_fresh lib (req_headers req))"

section \<open>The Express application object\<close>

text \<open>
  Modelled from the spec: the application object is code of the Express library. The spec
  has the script "attach middleware" and "register" a route, in this order, and has a
  middleware be "a request-processing step applied to every incoming HTTP request before
  it reaches route-specific logic". So the application is the list of its layers in the
  order of registration: \<^verbatim>\<open>app.use(f)\<close> appends a layer that sees every request,
  \<^verbatim>\<open>app.get(path, f)\<close> appends a route for the method \<^verbatim>\<open>GET\<close> and one path.
\<close>

datatype layer =
    Use handler
  | Route string string handler

type_synonym application = "layer list"

definition express :: application where
  "express = []"

definition app_use :: "handler \<Rightarrow> application \<Rightarrow> application" where
  "app_use f layers = layers @ [Use f]"

definition app_get :: "string \<Rightarrow> handler \<Rightarrow> application \<Rightarrow> application" where
  "app_get path f layers = layers @ [Route ''GET'' path f]"

text \<open>The routes of an application, as (method, path) pairs in order of registration.\<close>

fun routes :: "application \<Rightarrow> (string \<times> string) list" where
  "routes [] = []"
| "routes (Use f # ls) = routes ls"
| "routes (Route m p f # ls) = (m, p) # routes ls"

text \<open>
  Modelled from the spec: the framework's default handling, which is code of the Express
  library as well. A request that no layer has answered gets the not-found status; an
  error reported by a middleware is turned into a response with the error's status.
  Headers that earlier layers have set stay on the response. The page that the framework
  writes as the body of such a response is left out.
\<close>

definition not_found :: "response \<Rightarrow> response" where
  "not_found res = res\<lparr>statusCode := 404\<rparr>"

definition error_response :: "nat \<Rightarrow> response \<Rightarrow> response" where
  "error_response code res = res\<lparr>statusCode := code\<rparr>"

text \<open>
  Modelled from the spec: the router is code of the Express library. A route is for one
  path and one method; beyond the words of the spec, the library's rule that a route for
  \<^verbatim>\<open>GET\<close> also serves the \<^verbatim>\<open>HEAD\<close> requests of its path (no route of this program is for
  \<^verbatim>\<open>HEAD\<close>) is kept.
\<close>

definition route_matches :: "string \<Rightarrow> string \<Rightarrow> request \<Rightarrow> bool" where
  "route_matches m p req =
     (req_path req = p \<and> (req_method req = m \<or> (m = ''GET'' \<and> req_method req = ''HEAD'')))"

text \<open>
  Modelled from the spec: dispatch is code of the Express library. One request goes
  through the layers, first registered first; a route is skipped unless it matches.
\<close>

fun dispatch :: "application \<Rightarrow> request \<Rightarrow> response \<Rightarrow> response" where
  "dispatch [] req res = not_found res"
| "dispatch (Use f # ls) req res =
     (case f req res of
        Next req' res' \<Rightarrow> dispatch ls req' res'
      | Ended res' \<Rightarrow> res'
      | Failed code res' \<Rightarrow> error_response code res')"
| "dispatch (Route m p f # ls) req res =
     (if route_matches m p req
      then (case f req res of
              Next req' res' \<Rightarrow> dispatch ls req' res'
            | Ended res' \<Rightarrow> res'
            | Failed code res' \<Rightarrow> error_response code res')
      else dispatch ls req res)"

definition handle :: "application \<Rightarrow> request \<Rightarrow> response" where
  "handle layers req = dispatch layers req fresh_response"

text \<open>
  Modelled from the spec: \<^verbatim>\<open>res.send(text)\<close> is code of Express. The route "returns a
  fixed plain-text payload with a success status": the text becomes the body, the status
  stays what it is, and the response is ended. Beyond the words of the spec, two rules of
  the library are kept: a request found fresh is answered \<^verbatim>\<open>304\<close> without a body, and the
  answer to a \<^verbatim>\<open>HEAD\<close> request has no body. \<^verbatim>\<open>res.send\<close> knows the request of its
  response, which is an argument here.
\<close>

definition send :: "library \<Rightarrow> request \<Rightarrow> string \<Rightarrow> response \<Rightarrow> step" where
  "send lib req txt res =
     (if not_modified lib req then Ended (res\<lparr>statusCode := 304, res_body := []\<rparr>)
      else if req_method req = ''HEAD'' then Ended (res\<lparr>res_body := []\<rparr>)
      else Ended (res\<lparr>res_body := txt\<rparr>))"

section \<open>The two middlewares\<close>

text \<open>
  Modelled from the spec: \<^verbatim>\<open>cors()\<close> is code of the cors library, not of this repository.
  Called without options (line 7) it is, in the spec's words, "permissive cross-origin
  resource sharing: accept requests from any origin with default allowed methods/headers",
  a wildcard policy. Every response gets the allow-origin header with the value \<^verbatim>\<open>*\<close>.
  An \<^verbatim>\<open>OPTIONS\<close> request is a preflight: the library answers it itself, with the status
  \<^verbatim>\<open>204\<close> and its default list of allowed methods, and the request goes to no later
  layer. Every other request goes on. The other headers of the preflight answer are left
  out.
\<close>

definition cors :: handler where
  "cors req res =
     (if req_method req = ''OPTIONS''
      then Ended (res\<lparr>statusCode := 204,
                      res_headers := (res_headers res)
                        (''Access-Control-Allow-Origin'' \<mapsto> ''*'',
                         ''Access-Control-Allow-Methods'' \<mapsto> ''GET,HEAD,PUT,PATCH,POST,DELETE'')\<rparr>)
      else Next req
             (res\<lparr>res_headers := (res_headers res)(''Access-Control-Allow-Origin'' \<mapsto> ''*'')\<rparr>))"

text \<open>An allow-origin header permits an origin when it is the wildcard or names that origin.\<close>

definition permits_origin :: "response \<Rightarrow> string \<Rightarrow> bool" where
  "permits_origin res origin =
     (case res_headers res ''Access-Control-Allow-Origin'' of
        None \<Rightarrow> False
      | Some v \<Rightarrow> v = ''*'' \<or> v = origin)"

text \<open>
  Modelled from the spec: \<^verbatim>\<open>express.json()\<close> (line 8), code of the Express library. A
  request without a body goes on untouched. For a request with a body the parser's
  verdict is the parameter: the request goes on untouched, or goes on with the parsed
  value in \<^verbatim>\<open>req.body\<close>, or is reported as an error with the status of the refusal.
\<close>

definition express_json :: "library \<Rightarrow> handler" where
  "express_json lib req res =
     (case req_raw req of
        None \<Rightarrow> Next req res
      | Some raw \<Rightarrow>
          (case lib_parse lib req of
             Skipped \<Rightarrow> Next req res
           | Parsed v \<Rightarrow> Next (req\<lparr>req_body := Some v\<rparr>) res
           | Refused code \<Rightarrow> Failed code res))"

section \<open>The application of \<^verbatim>\<open>src/server.js\<close>\<close>

text \<open>Line 11: \<^verbatim>\<open>(req, res) => res.send("Movie Tracker API is running...")\<close>\<close>

definition root_handler :: "library \<Rightarrow> handler" where
  "root_handler lib req res = send lib req ''Movie Tracker API is running...'' res"

text \<open>
  Lines 6 to 11:
  \<^verbatim>\<open>
  const app = express();
  app.use(cors());
  app.use(express.json());
  app.get("/", (req, res) => res.send("Movie Tracker API is running..."));
  \<close>
\<close>

definition app :: "library \<Rightarrow> application" where
  "app lib = app_get ''/'' (root_handler lib) (app_use (express_json lib) (app_use cors express))"

section \<open>The process\<close>

text \<open>
  What the process does to the outside world, in the order in which it does it: the call
  of \<^verbatim>\<open>sequelize.authenticate()\<close>, the call of \<^verbatim>\<open>app.listen(PORT, ...)\<close>, and the lines
  written by \<^verbatim>\<open>console.log\<close>.
\<close>

datatype effect = DbAuthenticate | Listen jsval | Log string

text \<open>
  The promise that \<^verbatim>\<open>sequelize.authenticate()\<close> returns: not there before the call,
  pending from the call on, settled once the outcome has arrived.
\<close>

datatype promise = Unstarted | Pending | Settled

record process =
  application_of :: application
  db_check :: promise
  listener :: "jsval option"
  trace :: "effect list"

definition perform :: "effect \<Rightarrow> process \<Rightarrow> process" where
  "perform e p = p\<lparr>trace := trace p @ [e]\<rparr>"

definition console_log :: "string \<Rightarrow> process \<Rightarrow> process" where
  "console_log line p = perform (Log line) p"

fun logged :: "effect list \<Rightarrow> string list" where
  "logged [] = []"
| "logged (Log line # es) = line # logged es"
| "logged (e # es) = logged es"

definition console :: "process \<Rightarrow> string list" where
  "console p = logged (trace p)"

text \<open>
  Modelled from the spec: \<^verbatim>\<open>./config/database\<close> is a file of this repository that is not
  among the sources, and \<^verbatim>\<open>authenticate\<close> is code of the Sequelize library. The spec has
  it "expose an authenticate()-style operation returning a success/failure outcome
  asynchronously": the call returns a pending promise at once, and the outcome arrives
  later, as an event. A failure carries its description, the text that \<^verbatim>\<open>"Error: " + err\<close>
  appends.
\<close>

datatype settled = Fulfilled | Rejected string

definition authenticate :: "process \<Rightarrow> process" where
  "authenticate p = perform DbAuthenticate (p\<lparr>db_check := Pending\<rparr>)"

text \<open>
  \<^verbatim>\<open>p.then(f)\<close> runs \<^verbatim>\<open>f\<close> when \<^verbatim>\<open>p\<close> is fulfilled and hands a rejection on;
  \<^verbatim>\<open>p.catch(g)\<close> runs \<^verbatim>\<open>g\<close> on the reason when \<^verbatim>\<open>p\<close> is rejected. Neither callback of
  the script throws: each is one \<^verbatim>\<open>console.log\<close>.
\<close>

definition then_p :: "settled \<Rightarrow> (process \<Rightarrow> process) \<Rightarrow> process \<Rightarrow> settled \<times> process" where
  "then_p r f p = (case r of Fulfilled \<Rightarrow> (Fulfilled, f p) | Rejected err \<Rightarrow> (Rejected err, p))"

definition catch_p :: "settled \<Rightarrow> (string \<Rightarrow> process \<Rightarrow> process) \<Rightarrow> process \<Rightarrow> settled \<times> process" where
  "catch_p r g p = (case r of Fulfilled \<Rightarrow> (Fulfilled, p) | Rejected err \<Rightarrow> (Fulfilled, g err p))"

text \<open>
  Lines 14 to 16, run when the promise settles:
  \<^verbatim>\<open>
  sequelize.authenticate()
      .then(() => console.log("Database connected..."))
      .catch(err => console.log("Error: " + err));
  \<close>
\<close>

definition on_settled :: "settled \<Rightarrow> process \<Rightarrow> process" where
  "on_settled outcome p =
     (let (r1, p1) = then_p outcome (console_log ''Database connected...'') p;
          (r2, p2) = catch_p r1 (\<lambda>err. console_log (''Error: '' @ err)) p1
      in p2)"

text \<open>
  Modelled from the spec: what \<^verbatim>\<open>app.listen\<close> does is code of Express and Node. A failure
  to bind (\<open>Some\<close> of the system's error, such as an address in use) "surfaces as a fatal
  process-level error": the script registers no listener for it, so it is an uncaught
  exception and the process exits with what it had done so far. On success the listener
  is bound to the port and the callback of line 19 logs the port.
\<close>

datatype fatal = Uncaught string "effect list"

definition listen :: "jsval \<Rightarrow> string option \<Rightarrow> process \<Rightarrow> fatal + process" where
  "listen port bind_error p =
     (let p1 = perform (Listen port) p in
      case bind_error of
        Some err \<Rightarrow> Inl (Uncaught err (trace p1))
      | None \<Rightarrow>
          Inr (console_log (''Server running on port '' @ js_to_string port)
                 (p1\<lparr>listener := Some port\<rparr>)))"

text \<open>
  The script from top to bottom: the application of lines 6 to 11, the call of line 14,
  the port of line 18 and the call of line 19. Its inputs are the libraries' decisions,
  the environment and whether the system lets the port be bound.
\<close>

definition boot :: "library \<Rightarrow> environment \<Rightarrow> string option \<Rightarrow> fatal + process" where
  "boot lib env bind_error =
     (let p0 = \<lparr>application_of = app lib, db_check = Unstarted, listener = None, trace = []\<rparr>;
          p1 = authenticate p0
      in listen (PORT env) bind_error p1)"

text \<open>
  After the script the process waits for events, one at a time: the database check
  settles, or a request comes in. A promise settles once. A request is answered by the
  application when the listener is bound.
\<close>

datatype event = DbSettles | Incoming request

definition settle :: "settled \<Rightarrow> process \<Rightarrow> process" where
  "settle outcome p =
     (if db_check p = Pending then on_settled outcome (p\<lparr>db_check := Settled\<rparr>) else p)"

definition answer :: "process \<Rightarrow> request \<Rightarrow> response option" where
  "answer p req =
     (case listener p of
        None \<Rightarrow> None
      | Some port \<Rightarrow> Some (handle (application_of p) req))"

fun react :: "settled \<Rightarrow> event \<Rightarrow> process \<Rightarrow> process \<times> response option" where
  "react outcome DbSettles p = (settle outcome p, None)"
| "react outcome (Incoming req) p = (p, answer p req)"

text \<open>An execution: the events in the order of their arrival, and the answers given.\<close>

fun run :: "settled \<Rightarrow> event list \<Rightarrow> process \<Rightarrow> process" where
  "run outcome [] p = p"
| "run outcome (e # es) p = run outcome es (fst (react outcome e p))"

fun responses :: "settled \<Rightarrow> event list \<Rightarrow> process \<Rightarrow> response option list" where
  "responses outcome [] p = []"
| "responses outcome (e # es) p =
     snd (react outcome e p) # responses outcome es (fst (react outcome e p))"

section \<open>JSON texts\<close>

text \<open>
  The examples need one body parser to stand for the parameter. What a well-formed JSON
  text is, is the JSON grammar (RFC 8259): a lexer into tokens, then a parser that keeps
  the open arrays and objects on a stack. Strings and numbers are kept as written.
\<close>

datatype token =
    TLBrace | TRBrace | TLBracket | TRBracket | TColon | TComma
  | TString string | TNumber string | TTrue | TFalse | TNull

definition is_ws :: "char \<Rightarrow> bool" where
  "is_ws c = (c \<in> set [CHR '' '', CHR 0x09, CHR 0x0A, CHR 0x0D])"

definition is_digit :: "char \<Rightarrow> bool" where
  "is_digit c = (c \<in> set ''0123456789'')"

definition is_hex :: "char \<Rightarrow> bool" where
  "is_hex c = (c \<in> set ''0123456789abcdefABCDEF'')"

definition is_control :: "char \<Rightarrow> bool" where
  "is_control c = ((of_char c :: nat) < 32)"

definition is_num_char :: "char \<Rightarrow> bool" where
  "is_num_char c = (is_digit c \<or> c \<in> set ''+-.eE'')"

text \<open>
  The rest of a string after its opening quote: the characters up to the closing quote,
  and what follows it. A backslash must start one of the escapes of the grammar, and a
  control character may not stand in a string.
\<close>

fun scan_string :: "string \<Rightarrow> (string \<times> string) option" where
  "scan_string [] = None"
| "scan_string (c # cs) =
     (if c = CHR 0x22 then Some ([], cs)
      else if c = CHR 0x5C then
        (case cs of
           [] \<Rightarrow> None
         | e # cs' \<Rightarrow>
             if e \<in> set [CHR 0x22, CHR 0x5C, CHR ''/'', CHR ''b'', CHR ''f'', CHR ''n'', CHR ''r'', CHR ''t'']
               \<or> (e = CHR ''u'' \<and> 4 \<le> length cs' \<and> list_all is_hex (take 4 cs'))
             then map_option (\<lambda>p. (c # e # fst p, snd p)) (scan_string cs')
             else None)
      else if is_control c then None
      else map_option (\<lambda>p. (c # fst p, snd p)) (scan_string cs))"

text \<open>
  A number: an optional minus, an integer part without a leading zero, an optional
  fraction and an optional exponent.
\<close>

definition digits_then :: "(string \<Rightarrow> bool) \<Rightarrow> string \<Rightarrow> bool" where
  "digits_then k s = (takeWhile is_digit s \<noteq> [] \<and> k (dropWhile is_digit s))"

definition exponent_ok :: "string \<Rightarrow> bool" where
  "exponent_ok s =
     (case s of
        [] \<Rightarrow> True
      | c # cs \<Rightarrow>
          (c = CHR ''e'' \<or> c = CHR ''E'') \<and>
          (case cs of
             [] \<Rightarrow> False
           | d # ds \<Rightarrow> if d = CHR ''+'' \<or> d = CHR ''-'' then digits_then (\<lambda>r. r = []) ds
                       else digits_then (\<lambda>r. r = []) cs))"

definition fraction_ok :: "string \<Rightarrow> bool" where
  "fraction_ok s =
     (case s of
        [] \<Rightarrow> True
      | c # cs \<Rightarrow> if c = CHR ''.'' then digits_then exponent_ok cs else exponent_ok s)"

definition number_ok :: "string \<Rightarrow> bool" where
  "number_ok s =
     (let u = (case s of [] \<Rightarrow> [] | c # cs \<Rightarrow> if c = CHR ''-'' then cs else s) in
      case u of
        [] \<Rightarrow> False
      | c # cs \<Rightarrow> if c = CHR ''0'' then fraction_ok cs else digits_then fraction_ok u)"

lemma scan_string_shorter: "scan_string cs = Some p \<Longrightarrow> length (snd p) \<le> length cs"
proof (induction cs arbitrary: p rule: scan_string.induct)
  case 1
  then show ?case by simp
next
  case (2 c cs)
  then show ?case
    by (fastforce split: if_splits list.splits)
qed

function lex :: "string \<Rightarrow> token list option" where
  "lex [] = Some []"
| "lex (c # cs) =
     (if is_ws c then lex cs
      else if c = CHR ''{'' then map_option ((#) TLBrace) (lex cs)
      else if c = CHR ''}'' then map_option ((#) TRBrace) (lex cs)
      else if c = CHR ''['' then map_option ((#) TLBracket) (lex cs)
      else if c = CHR '']'' then map_option ((#) TRBracket) (lex cs)
      else if c = CHR '':'' then map_option ((#) TColon) (lex cs)
      else if c = CHR '','' then map_option ((#) TComma) (lex cs)
      else if c = CHR 0x22 then
        (case scan_string cs of
           None \<Rightarrow> None
         | Some p \<Rightarrow> map_option ((#) (TString (fst p))) (lex (snd p)))
      else if c = CHR ''-'' \<or> is_digit c then
        (if number_ok (c # takeWhile is_num_char cs)
         then map_option ((#) (TNumber (c # takeWhile is_num_char cs))) (lex (dropWhile is_num_char cs))
         else None)
      else if take 3 cs = ''rue'' \<and> c = CHR ''t'' then map_option ((#) TTrue) (lex (drop 3 cs))
      else if take 4 cs = ''alse'' \<and> c = CHR ''f'' then map_option ((#) TFalse) (lex (drop 4 cs))
      else if take 3 cs = ''ull'' \<and> c = CHR ''n'' then map_option ((#) TNull) (lex (drop 3 cs))
      else None)"
  by pat_completeness auto
termination
proof (relation "measure length")
  show "wf (measure length)" by simp
next
  fix c cs p
  assume "scan_string cs = Some p"
  then have "length (snd p) \<le> length cs" by (rule scan_string_shorter)
  then show "(snd p, c # cs) \<in> measure length" by simp
next
  fix c :: char and cs :: string
  have "length (dropWhile is_num_char cs) \<le> length cs" by (rule length_dropWhile_le)
  then show "(dropWhile is_num_char cs, c # cs) \<in> measure length" by simp
qed simp_all

declare lex.simps [simp del]

datatype frame =
    InArr "json list"
  | InObj "(string \<times> json) list"
  | InMember "(string \<times> json) list" string

datatype mode =
    WantValue | WantValueOrEnd | WantKeyOrEnd | WantKey | WantColon | WantCommaOrEnd
  | Complete json

fun scalar :: "token \<Rightarrow> json option" where
  "scalar (TString s) = Some (JStr s)"
| "scalar (TNumber n) = Some (JNum n)"
| "scalar TTrue = Some (JBool True)"
| "scalar TFalse = Some (JBool False)"
| "scalar TNull = Some JNull"
| "scalar _ = None"

text \<open>A finished value goes into the innermost open array or member, or is the result.\<close>

fun reduce :: "json \<Rightarrow> frame list \<Rightarrow> (mode \<times> frame list) option" where
  "reduce v [] = Some (Complete v, [])"
| "reduce v (InArr xs # fs) = Some (WantCommaOrEnd, InArr (v # xs) # fs)"
| "reduce v (InMember ms k # fs) = Some (WantCommaOrEnd, InObj ((k, v) # ms) # fs)"
| "reduce v (InObj ms # fs) = None"

definition start_value :: "frame list \<Rightarrow> token \<Rightarrow> (mode \<times> frame list) option" where
  "start_value fs t =
     (case t of
        TLBracket \<Rightarrow> Some (WantValueOrEnd, InArr [] # fs)
      | TLBrace \<Rightarrow> Some (WantKeyOrEnd, InObj [] # fs)
      | _ \<Rightarrow> (case scalar t of None \<Rightarrow> None | Some v \<Rightarrow> reduce v fs))"

definition close_array :: "frame list \<Rightarrow> (mode \<times> frame list) option" where
  "close_array fs = (case fs of InArr xs # fs' \<Rightarrow> reduce (JArr (rev xs)) fs' | _ \<Rightarrow> None)"

definition close_object :: "frame list \<Rightarrow> (mode \<times> frame list) option" where
  "close_object fs = (case fs of InObj ms # fs' \<Rightarrow> reduce (JObj (rev ms)) fs' | _ \<Rightarrow> None)"

definition member_key :: "frame list \<Rightarrow> string \<Rightarrow> (mode \<times> frame list) option" where
  "member_key fs k = (case fs of InObj ms # fs' \<Rightarrow> Some (WantColon, InMember ms k # fs') | _ \<Rightarrow> None)"

fun shift :: "mode \<Rightarrow> frame list \<Rightarrow> token \<Rightarrow> (mode \<times> frame list) option" where
  "shift WantValue fs t = start_value fs t"
| "shift WantValueOrEnd fs t = (if t = TRBracket then close_array fs else start_value fs t)"
| "shift WantKeyOrEnd fs t =
     (case t of TRBrace \<Rightarrow> close_object fs | TString k \<Rightarrow> member_key fs k | _ \<Rightarrow> None)"
| "shift WantKey fs t = (case t of TString k \<Rightarrow> member_key fs k | _ \<Rightarrow> None)"
| "shift WantColon fs t = (if t = TColon then Some (WantValue, fs) else None)"
| "shift WantCommaOrEnd fs t =
     (case t of
        TComma \<Rightarrow>
          (case fs of
             InArr xs # _ \<Rightarrow> Some (WantValue, fs)
           | InObj ms # _ \<Rightarrow> Some (WantKey, fs)
           | _ \<Rightarrow> None)
      | TRBracket \<Rightarrow> close_array fs
      | TRBrace \<Rightarrow> close_object fs
      | _ \<Rightarrow> None)"
| "shift (Complete v) fs t = None"

fun parse_tokens :: "mode \<Rightarrow> frame list \<Rightarrow> token list \<Rightarrow> json option" where
  "parse_tokens m fs [] = (case m of Complete v \<Rightarrow> Some v | _ \<Rightarrow> None)"
| "parse_tokens m fs (t # ts) =
     (case shift m fs t of
        None \<Rightarrow> None
      | Some q \<Rightarrow> parse_tokens (fst q) (snd q) ts)"

definition json_parse :: "string \<Rightarrow> json option" where
  "json_parse s = (case lex s of None \<Rightarrow> None | Some ts \<Rightarrow> parse_tokens WantValue [] ts)"

section \<open>One instance of the libraries' decisions\<close>

text \<open>
  Modelled from the spec: an instance of the parameter, for the examples. Its body parser
  is \<^verbatim>\<open>express.json()\<close> with its defaults as far as it can be computed from a request
  whose body is plain text in UTF-8: the spec's "any request with a JSON content type has
  its body parsed; malformed JSON yields a 400-class error", and the library's defaults
  around it. In the order of the library: a request whose media type is not
  \<^verbatim>\<open>application/json\<close> (in any case of the letters) is left alone; a charset other than
  UTF-8 is refused with \<^verbatim>\<open>415\<close>; a body of more than 100 kilobytes is refused with
  \<^verbatim>\<open>413\<close>; an empty body is the empty object; a byte order mark is dropped; a text that
  does not start with \<^verbatim>\<open>{\<close> or \<^verbatim>\<open>[\<close> (the strict mode) or is not well-formed JSON is
  refused with \<^verbatim>\<open>400\<close>. Compressed bodies and the other UTF encodings, which the
  library decodes first, are beyond this instance. No theorem about every request rests
  on it.
\<close>

definition lower :: "char \<Rightarrow> char" where
  "lower c =
     (case map_of (zip ''ABCDEFGHIJKLMNOPQRSTUVWXYZ'' ''abcdefghijklmnopqrstuvwxyz'') c of
        None \<Rightarrow> c
      | Some d \<Rightarrow> d)"

definition is_blank :: "char \<Rightarrow> bool" where
  "is_blank c = (c = CHR '' '' \<or> c = CHR 0x09)"

definition trim :: "string \<Rightarrow> string" where
  "trim s = rev (dropWhile is_blank (rev (dropWhile is_blank s)))"

fun split_on :: "char \<Rightarrow> string \<Rightarrow> string list" where
  "split_on d [] = [[]]"
| "split_on d (c # cs) =
     (if c = d then [] # split_on d cs
      else (case split_on d cs of [] \<Rightarrow> [[c]] | w # ws \<Rightarrow> (c # w) # ws))"

text \<open>The media type of a \<^verbatim>\<open>Content-Type\<close> value, and its charset parameter if it has one.\<close>

definition media_type :: "string \<Rightarrow> string" where
  "media_type v = map lower (trim (hd (split_on (CHR '';'') v)))"

definition charset_of :: "string \<Rightarrow> string option" where
  "charset_of v =
     (case filter (\<lambda>p. take 8 p = ''charset='')
             (map (\<lambda>p. map lower (trim p)) (tl (split_on (CHR '';'') v))) of
        [] \<Rightarrow> None
      | p # ps \<Rightarrow> Some (filter (\<lambda>c. c \<noteq> CHR 0x22) (drop 8 p)))"

definition has_json_content_type :: "request \<Rightarrow> bool" where
  "has_json_content_type req =
     (case req_headers req ''content-type'' of
        None \<Rightarrow> False
      | Some v \<Rightarrow> media_type v = ''application/json'')"

definition has_utf8_charset :: "request \<Rightarrow> bool" where
  "has_utf8_charset req =
     (case req_headers req ''content-type'' of
        None \<Rightarrow> True
      | Some v \<Rightarrow> (case charset_of v of None \<Rightarrow> True | Some cs \<Rightarrow> cs = ''utf-8''))"

definition strip_bom :: "string \<Rightarrow> string" where
  "strip_bom s = (if take 3 s = [CHR 0xEF, CHR 0xBB, CHR 0xBF] then drop 3 s else s)"

definition starts_object_or_array :: "string \<Rightarrow> bool" where
  "starts_object_or_array s =
     (case dropWhile is_ws s of [] \<Rightarrow> False | c # cs \<Rightarrow> c = CHR ''{'' \<or> c = CHR ''['')"

definition sample_parse :: "request \<Rightarrow> verdict" where
  "sample_parse req =
     (case req_raw req of
        None \<Rightarrow> Skipped
      | Some raw \<Rightarrow>
          if \<not> has_json_content_type req then Skipped
          else if \<not> has_utf8_charset req then Refused 415
          else if 102400 < int (length raw) then Refused 413
          else if raw = [] then Parsed (JObj [])
          else if \<not> starts_object_or_array (strip_bom raw) then Refused 400
          else (case json_parse (strip_bom raw) of
                  None \<Rightarrow> Refused 400
                | Some v \<Rightarrow> Parsed v))"

text \<open>
  Its freshness is that of the one conditional request whose answer does not depend on
  the entity tag: \<^verbatim>\<open>If-None-Match: *\<close>, without \<^verbatim>\<open>Cache-Control\<close> and without
  \<^verbatim>\<open>If-Modified-Since\<close>.
\<close>

definition sample_fresh :: "(string \<rightharpoonup> string) \<Rightarrow> bool" where
  "sample_fresh headers =
     (headers ''if-none-match'' = Some ''*'' \<and> headers ''cache-control'' = None \<and>
      headers ''if-modified-since'' = None)"

definition sample_library :: library where
  "sample_library = \<lparr>lib_parse = sample_parse, lib_fresh = sample_fresh\<rparr>"

section \<open>Sample inputs\<close>

text \<open>
  The process after a start with an empty environment on a free port, a \<^verbatim>\<open>GET /\<close>
  request without headers or body, the answer of the route, and a fresh response as the
  cross-origin middleware hands it on.
\<close>

definition default_process :: process where
  "default_process =
     \<lparr>application_of = app sample_library, db_check = Pending, listener = Some (JNumber 5001),
      trace = [DbAuthenticate, Listen (JNumber 5001), Log ''Server running on port 5001'']\<rparr>"

definition plain_get :: request where
  "plain_get =
     \<lparr>req_method = ''GET'', req_path = ''/'', req_headers = Map.empty, req_raw = None,
      req_body = None\<rparr>"

definition running_response :: response where
  "running_response =
     \<lparr>statusCode = 200, res_headers = [''Access-Control-Allow-Origin'' \<mapsto> ''*''],
      res_body = ''Movie Tracker API is running...''\<rparr>"

definition allowed_response :: response where
  "allowed_response =
     \<lparr>statusCode = 200, res_headers = [''Access-Control-Allow-Origin'' \<mapsto> ''*''],
      res_body = []\<rparr>"

section \<open>Facts about the model\<close>

lemma app_layers:
  "app lib = [Use cors, Use (express_json lib), Route ''GET'' ''/'' (root_handler lib)]"
  by (simp add: app_def app_get_def app_use_def express_def)

lemma not_modified_body [simp]: "not_modified lib (req\<lparr>req_body := b\<rparr>) = not_modified lib req"
  by (simp add: not_modified_def)

text \<open>What the route makes of a request that has reached it.\<close>

lemma route_answer:
  "root_handler lib req allowed_response =
     Ended (if not_modified lib req then allowed_response\<lparr>statusCode := 304\<rparr>
            else if req_method req = ''HEAD'' then allowed_response
            else running_response)"
  by (simp add: root_handler_def send_def allowed_response_def running_response_def)

text \<open>The answers the application can give.\<close>

lemma handle_app:
  "handle (app lib) req =
     (if req_method req = ''OPTIONS''
      then \<lparr>statusCode = 204,
             res_headers = [''Access-Control-Allow-Origin'' \<mapsto> ''*'',
                            ''Access-Control-Allow-Methods'' \<mapsto> ''GET,HEAD,PUT,PATCH,POST,DELETE''],
             res_body = []\<rparr>
      else (case refusal lib req of
              Some code \<Rightarrow> allowed_response\<lparr>statusCode := code\<rparr>
            | None \<Rightarrow>
                if req_path req = ''/'' \<and> (req_method req = ''GET'' \<or> req_method req = ''HEAD'')
                then (if not_modified lib req then allowed_response\<lparr>statusCode := 304\<rparr>
                      else if req_method req = ''HEAD'' then allowed_response
                      else running_response)
                else allowed_response\<lparr>statusCode := 404\<rparr>))"
proof (cases "req_method req = ''OPTIONS''")
  case True
  then show ?thesis
    by (simp add: handle_def app_layers cors_def fresh_response_def)
next
  case False
  then have first: "cors req fresh_response = Next req allowed_response"
    by (simp add: cors_def fresh_response_def allowed_response_def)
  show ?thesis
  proof (cases "req_raw req")
    case None
    then show ?thesis
      using False
      by (auto simp: handle_def app_layers first express_json_def refusal_def route_matches_def
          route_answer not_found_def)
  next
    case (Some raw)
    then show ?thesis
      using False
      by (cases "lib_parse lib req")
        (auto simp: handle_def app_layers first express_json_def refusal_def route_matches_def
          route_answer not_found_def error_response_def)
  qed
qed

lemma on_settled_log:
  "on_settled outcome p =
     console_log (case outcome of Fulfilled \<Rightarrow> ''Database connected...''
                                 | Rejected err \<Rightarrow> ''Error: '' @ err) p"
  by (simp add: on_settled_def then_p_def catch_p_def split: settled.splits)

lemma boot_ok:
  "boot lib env None =
     Inr \<lparr>application_of = app lib, db_check = Pending, listener = Some (PORT env),
          trace = [DbAuthenticate, Listen (PORT env),
                   Log (''Server running on port '' @ js_to_string (PORT env))]\<rparr>"
  by (simp add: boot_def listen_def authenticate_def perform_def console_log_def)

lemma digits_5001: "digits 5001 = ''5001''"
  by (simp add: digits.simps [of 5001] digits.simps [of 500] digits.simps [of 50]
      digits.simps [of 5])

lemma PORT_unset: "PORT Map.empty = JNumber 5001"
  by (simp add: PORT_def env_get_def js_or_def)

lemma boot_default: "boot sample_library Map.empty None = Inr default_process"
  by (simp add: boot_ok PORT_unset digits_5001 default_process_def)

lemma settle_fields:
  "application_of (settle outcome p) = application_of p"
  "listener (settle outcome p) = listener p"
  by (simp_all add: settle_def on_settled_log console_log_def perform_def)

lemma settle_trace:
  "trace (settle outcome p) =
     trace p @ (if db_check p = Pending
                then [Log (case outcome of Fulfilled \<Rightarrow> ''Database connected...''
                                          | Rejected err \<Rightarrow> ''Error: '' @ err)]
                else [])"
  by (simp add: settle_def on_settled_log console_log_def perform_def)

lemma settle_db: "db_check p \<noteq> Unstarted \<Longrightarrow> db_check (settle outcome p) = Settled"
  by (cases "db_check p") (simp_all add: settle_def on_settled_log console_log_def perform_def)

lemma react_keeps:
  "application_of (fst (react outcome e p)) = application_of p"
  "listener (fst (react outcome e p)) = listener p"
  by (cases e; simp add: settle_fields)+

lemma run_keeps:
  "application_of (run outcome es p) = application_of p"
  "listener (run outcome es p) = listener p"
  by (induction es arbitrary: p) (simp_all add: react_keeps)

lemma logged_append: "logged (xs @ ys) = logged xs @ logged ys"
  by (induction xs rule: logged.induct) simp_all

text \<open>Whatever the events, the process writes at most one more line: that of the check.\<close>

lemma run_trace:
  "trace (run outcome es p) =
     trace p @ (if DbSettles \<in> set es \<and> db_check p = Pending
                then [Log (case outcome of Fulfilled \<Rightarrow> ''Database connected...''
                                          | Rejected err \<Rightarrow> ''Error: '' @ err)]
                else [])"
proof (induction es arbitrary: p)
  case Nil
  then show ?case by simp
next
  case (Cons e es)
  show ?case
  proof (cases e)
    case DbSettles
    show ?thesis
    proof (cases "db_check p = Pending")
      case True
      then have "db_check (settle outcome p) = Settled"
        by (simp add: settle_db)
      with True DbSettles show ?thesis
        by (simp add: Cons.IH settle_trace)
    next
      case False
      then have "settle outcome p = p"
        by (simp add: settle_def)
      with False DbSettles show ?thesis
        by (simp add: Cons.IH)
    qed
  next
    case (Incoming req)
    then show ?thesis
      by (simp add: Cons.IH)
  qed
qed

lemma run_db:
  "db_check p \<noteq> Unstarted \<Longrightarrow>
     db_check (run outcome es p) = (if DbSettles \<in> set es then Settled else db_check p)"
proof (induction es arbitrary: p)
  case Nil
  then show ?case by simp
next
  case (Cons e es)
  then show ?case
    by (cases e) (simp_all add: settle_db)
qed

lemma answer_run: "answer (run outcome es p) req = answer p req"
  by (simp add: answer_def run_keeps split: option.splits)

lemma answer_booted:
  assumes "boot lib env None = Inr p0"
  shows "answer (run outcome es p0) req = Some (handle (app lib) req)"
proof -
  have "listener p0 = Some (PORT env)" and "application_of p0 = app lib"
    using assms by (auto simp: boot_ok)
  then show ?thesis
    by (simp add: answer_run) (simp add: answer_def)
qed

text \<open>The answers depend on the listener and the application only.\<close>

lemma responses_same:
  assumes "listener p = listener q" and "application_of p = application_of q"
  shows "responses o1 es p = responses o2 es q"
  using assms
proof (induction es arbitrary: p q)
  case Nil
  then show ?case by simp
next
  case (Cons e es)
  show ?case
  proof (cases e)
    case DbSettles
    have "responses o1 es (settle o1 p) = responses o2 es (settle o2 q)"
      by (rule Cons.IH) (simp_all add: settle_fields Cons.prems)
    with DbSettles show ?thesis by simp
  next
    case (Incoming req)
    have "responses o1 es p = responses o2 es q"
      by (rule Cons.IH) (simp_all add: Cons.prems)
    moreover have "answer p req = answer q req"
      by (simp add: answer_def Cons.prems split: option.splits)
    ultimately show ?thesis using Incoming by simp
  qed
qed

lemma plain_get_answer: "handle (app lib) plain_get = running_response"
  by (simp add: handle_app refusal_def not_modified_def plain_get_def)

text \<open>
  A conditional request that the library finds fresh is answered \<^verbatim>\<open>304\<close>: in the instance,
  \<^verbatim>\<open>GET /\<close> with \<^verbatim>\<open>If-None-Match: *\<close>.
\<close>

lemma conditional_get_not_modified:
  "handle (app sample_library)
     \<lparr>req_method = ''GET'', req_path = ''/'', req_headers = [''if-none-match'' \<mapsto> ''*''],
      req_raw = None, req_body = None\<rparr> = allowed_response\<lparr>statusCode := 304\<rparr>"
  by (simp add: handle_app refusal_def not_modified_def sample_library_def sample_fresh_def)

section \<open>The claims\<close>




text \<open>
  Claim C2. For every environment, the port chosen at start-up is the value of the
  \<^verbatim>\<open>PORT\<close> variable when the variable is there and is not the empty string, and it is
  \<^verbatim>\<open>5001\<close> when the variable is not set or is the empty string. The chosen port is the one
  handed to \<^verbatim>\<open>app.listen\<close>, and the one the listener is bound to.
\<close>

theorem listening_port_choice:
  "(env ''PORT'' = Some v \<and> v \<noteq> [] \<longrightarrow> PORT env = JString v) \<and>
   (env ''PORT'' = None \<or> env ''PORT'' = Some [] \<longrightarrow> PORT env = JNumber 5001) \<and>
   (\<exists>p. boot lib env None = Inr p \<and> listener p = Some (PORT env) \<and>
        Listen (PORT env) \<in> set (trace p))"
proof -
  have set_port: "env ''PORT'' = Some v \<and> v \<noteq> [] \<longrightarrow> PORT env = JString v"
    by (simp add: PORT_def env_get_def js_or_def)
  have no_port: "env ''PORT'' = None \<or> env ''PORT'' = Some [] \<longrightarrow> PORT env = JNumber 5001"
    by (auto simp: PORT_def env_get_def js_or_def)
  have bound: "\<exists>p. boot lib env None = Inr p \<and> listener p = Some (PORT env) \<and>
      Listen (PORT env) \<in> set (trace p)"
    by (simp add: boot_ok)
  from set_port no_port bound show ?thesis by blast
qed

text \<open>The theorem at \<^verbatim>\<open>PORT=8080\<close>, at an environment without \<^verbatim>\<open>PORT\<close>, and at \<^verbatim>\<open>PORT=\<close>.\<close>

theorem listening_port_choice_witness:
  "PORT [''PORT'' \<mapsto> ''8080''] = JString ''8080'' \<and>
   PORT Map.empty = JNumber 5001 \<and>
   PORT [''PORT'' \<mapsto> []] = JNumber 5001"
  using listening_port_choice [of "[''PORT'' \<mapsto> ''8080'']" "''8080''"]
    listening_port_choice [of Map.empty]
    listening_port_choice [of "[''PORT'' \<mapsto> []]"]
  by simp

text \<open>
  Claim C3. Whatever the outcome of the database check, the start-up goes on: the listener
  is bound to the chosen port; once the check has settled the console holds exactly one
  more line, \<^verbatim>\<open>Database connected...\<close> on success and \<^verbatim>\<open>Error: \<close> followed by the
  description of the error on failure, whatever else happens before or after; the listener
  stays bound, every request gets the answer it would have got before the check settled,
  and \<^verbatim>\<open>GET /\<close> is served.
\<close>

theorem database_outcome_only_logged:
  "\<exists>p0. boot lib env None = Inr p0 \<and>
     listener p0 = Some (PORT env) \<and>
     console (run outcome es p0) =
       console p0 @
         (if DbSettles \<in> set es
          then [case outcome of Fulfilled \<Rightarrow> ''Database connected...''
                              | Rejected err \<Rightarrow> ''Error: '' @ err]
          else []) \<and>
     listener (run outcome es p0) = Some (PORT env) \<and>
     (\<forall>req. answer (run outcome es p0) req = answer p0 req) \<and>
     answer (run outcome es p0) plain_get = Some running_response"
proof -
  define p0 where
    "p0 = \<lparr>application_of = app lib, db_check = Pending, listener = Some (PORT env),
           trace = [DbAuthenticate, Listen (PORT env),
                    Log (''Server running on port '' @ js_to_string (PORT env))]\<rparr>"
  have booted: "boot lib env None = Inr p0"
    by (simp add: boot_ok p0_def)
  have bound: "listener p0 = Some (PORT env)"
    by (simp add: p0_def)
  have pending: "db_check p0 = Pending"
    by (simp add: p0_def)
  have lines: "console (run outcome es p0) =
       console p0 @
         (if DbSettles \<in> set es
          then [case outcome of Fulfilled \<Rightarrow> ''Database connected...''
                              | Rejected err \<Rightarrow> ''Error: '' @ err]
          else [])"
    by (simp add: console_def run_trace logged_append pending)
  have still_bound: "listener (run outcome es p0) = Some (PORT env)"
    by (simp add: run_keeps bound)
  have same: "\<forall>req. answer (run outcome es p0) req = answer p0 req"
    by (simp add: answer_run)
  have served: "answer (run outcome es p0) plain_get = Some running_response"
    by (simp add: answer_booted [OF booted] plain_get_answer)
  from booted bound lines still_bound same served show ?thesis
    by blast
qed

text \<open>
  Claim C4. When the port cannot be bound, the error is caught nowhere in the script and
  the process ends with it. By then it has called \<^verbatim>\<open>sequelize.authenticate()\<close> and
  \<^verbatim>\<open>app.listen\<close> once each and nothing else: the port is not tried again, nothing is
  logged, and no other step is taken.
\<close>

theorem bind_failure_is_fatal:
  "boot lib env (Some err) = Inl (Uncaught err [DbAuthenticate, Listen (PORT env)])"
  by (simp add: boot_def listen_def authenticate_def perform_def)

text \<open>
  Claim C5. In the order of the script the database check is started strictly before the
  port is listened on: these are the first and the second thing the process does. When
  the script is over the check is still pending. Its settling is not ordered with the
  requests: in the execution where a \<^verbatim>\<open>GET /\<close> request arrives first, the request is
  answered while the check is pending and the check settles afterwards; in the execution
  where the check settles first, the request gets the same answer.
\<close>

theorem check_started_before_listening_and_unordered:
  "\<exists>p0. boot lib env None = Inr p0 \<and>
     take 2 (trace p0) = [DbAuthenticate, Listen (PORT env)] \<and>
     db_check p0 = Pending \<and>
     responses outcome [Incoming plain_get, DbSettles] p0 = [Some running_response, None] \<and>
     db_check (run outcome [Incoming plain_get] p0) = Pending \<and>
     db_check (run outcome [Incoming plain_get, DbSettles] p0) = Settled \<and>
     responses outcome [DbSettles, Incoming plain_get] p0 = [None, Some running_response]"
proof -
  define p0 where
    "p0 = \<lparr>application_of = app lib, db_check = Pending, listener = Some (PORT env),
           trace = [DbAuthenticate, Listen (PORT env),
                    Log (''Server running on port '' @ js_to_string (PORT env))]\<rparr>"
  have booted: "boot lib env None = Inr p0"
    by (simp add: boot_ok p0_def)
  have order: "take 2 (trace p0) = [DbAuthenticate, Listen (PORT env)]"
    by (simp add: p0_def)
  have pending: "db_check p0 = Pending"
    by (simp add: p0_def)
  have plain: "handle (app lib) plain_get = running_response"
    by (rule plain_get_answer)
  have now: "answer p0 plain_get = Some running_response"
    using answer_booted [OF booted, of outcome "[]" plain_get] by (simp add: plain)
  have later: "answer (settle outcome p0) plain_get = Some running_response"
    using answer_booted [OF booted, of outcome "[DbSettles]" plain_get] by (simp add: plain)
  have request_first:
    "responses outcome [Incoming plain_get, DbSettles] p0 = [Some running_response, None]"
    by (simp add: now)
  have still_pending: "db_check (run outcome [Incoming plain_get] p0) = Pending"
    by (simp add: pending)
  have then_settled: "db_check (run outcome [Incoming plain_get, DbSettles] p0) = Settled"
    by (simp add: settle_db pending)
  have check_first:
    "responses outcome [DbSettles, Incoming plain_get] p0 = [None, Some running_response]"
    by (simp add: later)
  from booted order pending request_first still_pending then_settled check_first
  show ?thesis by blast
qed




text \<open>
  Claim C7. Every request, whatever its \<^verbatim>\<open>Origin\<close> header (and whether or not a route
  answers it), gets a response whose \<^verbatim>\<open>Access-Control-Allow-Origin\<close> header is the
  wildcard \<^verbatim>\<open>*\<close>, which permits that origin and any other: the policy of \<^verbatim>\<open>cors()\<close>
  called without options, with the defaults of the middleware.
\<close>

theorem every_origin_allowed:
  assumes "boot lib env None = Inr p0"
  shows "\<exists>res. answer (run outcome es p0) req = Some res \<and>
           res_headers res ''Access-Control-Allow-Origin'' = Some ''*'' \<and>
           (\<forall>origin. permits_origin res origin)"
  by (auto simp: answer_booted [OF assms] handle_app permits_origin_def running_response_def
      allowed_response_def split: option.splits)

text \<open>The theorem at a \<^verbatim>\<open>DELETE\<close> request from \<^verbatim>\<open>https://example.org\<close> that no route answers.\<close>

theorem every_origin_allowed_witness:
  "\<exists>res. answer (run Fulfilled [] default_process)
            \<lparr>req_method = ''DELETE'', req_path = ''/movies/7'',
             req_headers = [''origin'' \<mapsto> ''https://example.org''],
             req_raw = None, req_body = None\<rparr> = Some res \<and>
         res_headers res ''Access-Control-Allow-Origin'' = Some ''*'' \<and>
         permits_origin res ''https://example.org''"
  using every_origin_allowed [OF boot_default, of Fulfilled "[]"
      "\<lparr>req_method = ''DELETE'', req_path = ''/movies/7'',
        req_headers = [''origin'' \<mapsto> ''https://example.org''],
        req_raw = None, req_body = None\<rparr>"]
  by blast

text \<open>
  Claim C8, as the spec states it: \<^verbatim>\<open>GET /\<close> is the only route, and every request to
  another method and path falls through to the framework's not-found handling. A
  \<^verbatim>\<open>POST /movies\<close> request with a JSON content type and a malformed body does not fall
  through: the body parser answers it with status 400, which is not the not-found answer.
\<close>

theorem other_route_malformed_body_counterexample:
  \<open>boot sample_library Map.empty None = Inr default_process \<and>
   map_option statusCode
     (answer default_process
        \<lparr>req_method = ''POST'', req_path = ''/movies'',
         req_headers = [''content-type'' \<mapsto> ''application/json''],
         req_raw = Some ''{"title": '', req_body = None\<rparr>) = Some 400 \<and>
   answer default_process
     \<lparr>req_method = ''POST'', req_path = ''/movies'',
      req_headers = [''content-type'' \<mapsto> ''application/json''],
      req_raw = Some ''{"title": '', req_body = None\<rparr> \<noteq>
     Some (not_found allowed_response)\<close>
proof -
  have refused:
    \<open>refusal sample_library
       \<lparr>req_method = ''POST'', req_path = ''/movies'',
        req_headers = [''content-type'' \<mapsto> ''application/json''],
        req_raw = Some ''{"title": '', req_body = None\<rparr> = Some 400\<close>
    by code_simp
  show ?thesis
    using refused answer_booted [OF boot_default, of Fulfilled "[]"]
    by (simp add: boot_default handle_app not_found_def allowed_response_def)
qed

text \<open>
  Claim C8, amended: at every moment of the life of the process exactly one route is
  registered, \<^verbatim>\<open>GET /\<close>. A request to any other method and path falls through to the
  framework's not-found handling (its answer is what \<^verbatim>\<open>not_found\<close> makes of the response
  as the cross-origin middleware left it) unless a middleware answers it first or the
  framework serves it through the route: the cross-origin middleware answers every
  \<^verbatim>\<open>OPTIONS\<close> request with status 204, the body parser answers a request whose body it
  refuses with the status of the refusal, and \<^verbatim>\<open>HEAD /\<close> is served through the \<^verbatim>\<open>GET /\<close>
  route, without a body. No request to another method and path gets the text that the
  route sends.
\<close>

theorem single_route_else_not_found:
  assumes "boot lib env None = Inr p0"
  shows "routes (application_of (run outcome es p0)) = [(''GET'', ''/'')] \<and>
         (req_method req \<noteq> ''OPTIONS'' \<and> lets_through lib req \<and>
          (req_path req \<noteq> ''/'' \<or> (req_method req \<noteq> ''GET'' \<and> req_method req \<noteq> ''HEAD'')) \<longrightarrow>
            answer (run outcome es p0) req = Some (not_found allowed_response)) \<and>
         (req_method req = ''OPTIONS'' \<longrightarrow>
            map_option statusCode (answer (run outcome es p0) req) = Some 204) \<and>
         (req_method req \<noteq> ''OPTIONS'' \<longrightarrow>
            (\<forall>code. refusal lib req = Some code \<longrightarrow>
               map_option statusCode (answer (run outcome es p0) req) = Some code)) \<and>
         (req_method req = ''HEAD'' \<and> req_path req = ''/'' \<and> lets_through lib req \<longrightarrow>
            answer (run outcome es p0) req =
              Some (if not_modified lib req then allowed_response\<lparr>statusCode := 304\<rparr>
                    else allowed_response)) \<and>
         (req_method req \<noteq> ''GET'' \<or> req_path req \<noteq> ''/'' \<longrightarrow>
            map_option res_body (answer (run outcome es p0) req) \<noteq>
              Some ''Movie Tracker API is running...'')"
proof -
  have "application_of p0 = app lib"
    using assms by (auto simp: boot_ok)
  then have only: "routes (application_of (run outcome es p0)) = [(''GET'', ''/'')]"
    by (simp add: run_keeps app_layers)
  have falls:
    "req_method req \<noteq> ''OPTIONS'' \<and> lets_through lib req \<and>
     (req_path req \<noteq> ''/'' \<or> (req_method req \<noteq> ''GET'' \<and> req_method req \<noteq> ''HEAD'')) \<longrightarrow>
       answer (run outcome es p0) req = Some (not_found allowed_response)"
    by (auto simp: answer_booted [OF assms] handle_app lets_through_def not_found_def)
  have preflight:
    "req_method req = ''OPTIONS'' \<longrightarrow>
       map_option statusCode (answer (run outcome es p0) req) = Some 204"
    by (simp add: answer_booted [OF assms] handle_app)
  have refused:
    "req_method req \<noteq> ''OPTIONS'' \<longrightarrow>
       (\<forall>code. refusal lib req = Some code \<longrightarrow>
          map_option statusCode (answer (run outcome es p0) req) = Some code)"
    by (simp add: answer_booted [OF assms] handle_app)
  have head:
    "req_method req = ''HEAD'' \<and> req_path req = ''/'' \<and> lets_through lib req \<longrightarrow>
       answer (run outcome es p0) req =
         Some (if not_modified lib req then allowed_response\<lparr>statusCode := 304\<rparr>
               else allowed_response)"
    by (simp add: answer_booted [OF assms] handle_app lets_through_def)
  have no_text:
    "req_method req \<noteq> ''GET'' \<or> req_path req \<noteq> ''/'' \<longrightarrow>
       map_option res_body (answer (run outcome es p0) req) \<noteq>
         Some ''Movie Tracker API is running...''"
    by (auto simp: answer_booted [OF assms] handle_app allowed_response_def
        split: option.splits)
  from only falls preflight refused head no_text show ?thesis by blast
qed

text \<open>
  The theorem at \<^verbatim>\<open>GET /movies\<close>, at \<^verbatim>\<open>OPTIONS /movies\<close> and at \<^verbatim>\<open>HEAD /\<close>, after a failed
  database check and a served request.
\<close>

theorem single_route_else_not_found_witness:
  "routes (application_of (run (Rejected ''timeout'') [DbSettles, Incoming plain_get] default_process))
     = [(''GET'', ''/'')] \<and>
   answer (run (Rejected ''timeout'') [DbSettles, Incoming plain_get] default_process)
     \<lparr>req_method = ''GET'', req_path = ''/movies'', req_headers = Map.empty, req_raw = None,
      req_body = None\<rparr>
   = Some (not_found allowed_response) \<and>
   map_option statusCode
     (answer (run (Rejected ''timeout'') [DbSettles, Incoming plain_get] default_process)
        \<lparr>req_method = ''OPTIONS'', req_path = ''/movies'', req_headers = Map.empty,
         req_raw = None, req_body = None\<rparr>) = Some 204 \<and>
   answer (run (Rejected ''timeout'') [DbSettles, Incoming plain_get] default_process)
     \<lparr>req_method = ''HEAD'', req_path = ''/'', req_headers = Map.empty, req_raw = None,
      req_body = None\<rparr>
   = Some allowed_response"
proof -
  have passes:
    "lets_through sample_library
       \<lparr>req_method = m, req_path = p, req_headers = Map.empty, req_raw = None,
        req_body = None\<rparr>" for m p
    by (simp add: lets_through_def refusal_def)
  have stale:
    "\<not> not_modified sample_library
       \<lparr>req_method = m, req_path = p, req_headers = Map.empty, req_raw = None,
        req_body = None\<rparr>" for m p
    by (simp add: not_modified_def)
  show ?thesis
    using passes stale
      single_route_else_not_found [OF boot_default,
        of "Rejected ''timeout''" "[DbSettles, Incoming plain_get]"
        "\<lparr>req_method = ''GET'', req_path = ''/movies'', req_headers = Map.empty, req_raw = None,
          req_body = None\<rparr>"]
      single_route_else_not_found [OF boot_default,
        of "Rejected ''timeout''" "[DbSettles, Incoming plain_get]"
        "\<lparr>req_method = ''OPTIONS'', req_path = ''/movies'', req_headers = Map.empty,
          req_raw = None, req_body = None\<rparr>"]
      single_route_else_not_found [OF boot_default,
        of "Rejected ''timeout''" "[DbSettles, Incoming plain_get]"
        "\<lparr>req_method = ''HEAD'', req_path = ''/'', req_headers = Map.empty, req_raw = None,
          req_body = None\<rparr>"]
    by simp
qed

text \<open>
  Claim C9. Take two executions with the same environment and the same events that differ
  in the outcome of the database check only. Every request, and so every \<^verbatim>\<open>GET /\<close>
  request, gets the same answer in both; the application, the listener and the state of
  the check are the same at the end; and the consoles differ in one line at most, the line
  of the check, which is there in both or in neither.
\<close>

theorem database_outcome_invisible_to_clients:
  assumes "boot lib env None = Inr p0"
  shows "responses o1 es p0 = responses o2 es p0 \<and>
         application_of (run o1 es p0) = application_of (run o2 es p0) \<and>
         listener (run o1 es p0) = listener (run o2 es p0) \<and>
         db_check (run o1 es p0) = db_check (run o2 es p0) \<and>
         console (run o1 es p0) =
           console p0 @
             (if DbSettles \<in> set es
              then [case o1 of Fulfilled \<Rightarrow> ''Database connected...''
                             | Rejected err \<Rightarrow> ''Error: '' @ err]
              else []) \<and>
         console (run o2 es p0) =
           console p0 @
             (if DbSettles \<in> set es
              then [case o2 of Fulfilled \<Rightarrow> ''Database connected...''
                             | Rejected err \<Rightarrow> ''Error: '' @ err]
              else [])"
proof -
  have pending: "db_check p0 = Pending"
    using assms by (auto simp: boot_ok)
  have same_answers: "responses o1 es p0 = responses o2 es p0"
    by (rule responses_same) simp_all
  have same_state:
    "application_of (run o1 es p0) = application_of (run o2 es p0)"
    "listener (run o1 es p0) = listener (run o2 es p0)"
    "db_check (run o1 es p0) = db_check (run o2 es p0)"
    by (simp_all add: run_keeps run_db pending)
  have lines: "console (run outcome es p0) =
       console p0 @
         (if DbSettles \<in> set es
          then [case outcome of Fulfilled \<Rightarrow> ''Database connected...''
                              | Rejected err \<Rightarrow> ''Error: '' @ err]
          else [])" for outcome
    by (simp add: console_def run_trace logged_append pending)
  from same_answers same_state lines [of o1] lines [of o2] show ?thesis
    by blast
qed

text \<open>
  The theorem at two executions of three events, one with a check that succeeds and one
  with a check that fails.
\<close>

theorem database_outcome_invisible_to_clients_witness:
  "responses Fulfilled [Incoming plain_get, DbSettles, Incoming plain_get] default_process =
     responses (Rejected ''ECONNREFUSED'') [Incoming plain_get, DbSettles, Incoming plain_get]
       default_process \<and>
   console (run Fulfilled [Incoming plain_get, DbSettles, Incoming plain_get] default_process) =
     [''Server running on port 5001'', ''Database connected...''] \<and>
   console (run (Rejected ''ECONNREFUSED'') [Incoming plain_get, DbSettles, Incoming plain_get]
              default_process) =
     [''Server running on port 5001'', ''Error: ECONNREFUSED'']"
proof -
  have start: "console default_process = [''Server running on port 5001'']"
    by (simp add: console_def default_process_def)
  show ?thesis
    using start
      database_outcome_invisible_to_clients [OF boot_default,
        of Fulfilled "[Incoming plain_get, DbSettles, Incoming plain_get]"
           "Rejected ''ECONNREFUSED''"]
    by simp
qed

text \<open>
  Claim C10, as the spec states it: two \<^verbatim>\<open>GET /\<close> requests with a JSON content type whose
  bodies are both well-formed JSON get the same answer. The body parser of line 8 is
  called with its defaults, and so in its strict mode: of the well-formed JSON texts it
  lets only objects and arrays through. The bodies \<^verbatim>\<open>{}\<close> and \<^verbatim>\<open>123\<close> are both well-formed
  JSON, and the requests are answered with status 200 and with status 400.
\<close>

theorem scalar_body_counterexample:
  \<open>boot sample_library Map.empty None = Inr default_process \<and>
   json_parse ''{}'' = Some (JObj []) \<and>
   json_parse ''123'' = Some (JNum ''123'') \<and>
   map_option statusCode
     (answer default_process
        \<lparr>req_method = ''GET'', req_path = ''/'',
         req_headers = [''content-type'' \<mapsto> ''application/json''],
         req_raw = Some ''{}'', req_body = None\<rparr>) = Some 200 \<and>
   map_option statusCode
     (answer default_process
        \<lparr>req_method = ''GET'', req_path = ''/'',
         req_headers = [''content-type'' \<mapsto> ''application/json''],
         req_raw = Some ''123'', req_body = None\<rparr>) = Some 400\<close>
proof -
  have object: \<open>json_parse ''{}'' = Some (JObj [])\<close>
    by code_simp
  have number: \<open>json_parse ''123'' = Some (JNum ''123'')\<close>
    by code_simp
  have passes:
    \<open>refusal sample_library
       \<lparr>req_method = ''GET'', req_path = ''/'',
        req_headers = [''content-type'' \<mapsto> ''application/json''],
        req_raw = Some ''{}'', req_body = None\<rparr> = None\<close>
    by code_simp
  have refused:
    \<open>refusal sample_library
       \<lparr>req_method = ''GET'', req_path = ''/'',
        req_headers = [''content-type'' \<mapsto> ''application/json''],
        req_raw = Some ''123'', req_body = None\<rparr> = Some 400\<close>
    by code_simp
  have stale:
    \<open>\<not> not_modified sample_library
       \<lparr>req_method = ''GET'', req_path = ''/'',
        req_headers = [''content-type'' \<mapsto> ''application/json''],
        req_raw = Some ''{}'', req_body = None\<rparr>\<close>
    by (simp add: not_modified_def)
  show ?thesis
    using object number passes refused stale answer_booted [OF boot_default, of Fulfilled "[]"]
    by (simp add: boot_default handle_app allowed_response_def running_response_def)
qed

text \<open>
  Claim C10, amended: two \<^verbatim>\<open>GET /\<close> requests whose bodies the body parser lets through
  get the same answer, however the bodies differ, when the framework finds both fresh or
  neither (as it does when neither has an \<^verbatim>\<open>If-None-Match\<close> header, or when the two have
  the same headers). The route handler never reads the value that the body parser has
  stored in \<^verbatim>\<open>req.body\<close>: whatever that value is, the handler does the same.
\<close>

theorem body_let_through_does_not_matter:
  assumes "boot lib env None = Inr p0"
    and "req_method r1 = ''GET''" and "req_path r1 = ''/''" and "lets_through lib r1"
    and "req_method r2 = ''GET''" and "req_path r2 = ''/''" and "lets_through lib r2"
    and "not_modified lib r1 = not_modified lib r2"
  shows "answer (run outcome es p0) r1 = answer (run outcome es p0) r2 \<and>
         root_handler lib (r1\<lparr>req_body := b1\<rparr>) res = root_handler lib (r1\<lparr>req_body := b2\<rparr>) res"
proof -
  have "answer (run outcome es p0) r1 = answer (run outcome es p0) r2"
    using assms(2-8) by (simp add: answer_booted [OF assms(1)] handle_app lets_through_def)
  moreover have "root_handler lib (r1\<lparr>req_body := b1\<rparr>) res =
      root_handler lib (r1\<lparr>req_body := b2\<rparr>) res"
    by (simp add: root_handler_def send_def)
  ultimately show ?thesis by blast
qed

text \<open>
  The theorem at two requests whose bodies are an object and an array, both let through
  by the parser of the instance.
\<close>

theorem body_let_through_does_not_matter_witness:
  \<open>lets_through sample_library
     \<lparr>req_method = ''GET'', req_path = ''/'',
      req_headers = [''content-type'' \<mapsto> ''application/json''],
      req_raw = Some ''{"title": "Alien", "year": 1979}'', req_body = None\<rparr> \<and>
   lets_through sample_library
     \<lparr>req_method = ''GET'', req_path = ''/'',
      req_headers = [''content-type'' \<mapsto> ''application/json; charset=utf-8''],
      req_raw = Some ''[true, null]'', req_body = None\<rparr> \<and>
   answer (run Fulfilled [DbSettles] default_process)
     \<lparr>req_method = ''GET'', req_path = ''/'',
      req_headers = [''content-type'' \<mapsto> ''application/json''],
      req_raw = Some ''{"title": "Alien", "year": 1979}'', req_body = None\<rparr> =
   answer (run Fulfilled [DbSettles] default_process)
     \<lparr>req_method = ''GET'', req_path = ''/'',
      req_headers = [''content-type'' \<mapsto> ''application/json; charset=utf-8''],
      req_raw = Some ''[true, null]'', req_body = None\<rparr>\<close>
proof -
  have first:
    \<open>lets_through sample_library
       \<lparr>req_method = ''GET'', req_path = ''/'',
        req_headers = [''content-type'' \<mapsto> ''application/json''],
        req_raw = Some ''{"title": "Alien", "year": 1979}'', req_body = None\<rparr>\<close>
    by code_simp
  have second:
    \<open>lets_through sample_library
       \<lparr>req_method = ''GET'', req_path = ''/'',
        req_headers = [''content-type'' \<mapsto> ''application/json; charset=utf-8''],
        req_raw = Some ''[true, null]'', req_body = None\<rparr>\<close>
    by code_simp
  have alike:
    \<open>not_modified sample_library
       \<lparr>req_method = ''GET'', req_path = ''/'',
        req_headers = [''content-type'' \<mapsto> ''application/json''],
        req_raw = Some ''{"title": "Alien", "year": 1979}'', req_body = None\<rparr> =
     not_modified sample_library
       \<lparr>req_method = ''GET'', req_path = ''/'',
        req_headers = [''content-type'' \<mapsto> ''application/json; charset=utf-8''],
        req_raw = Some ''[true, null]'', req_body = None\<rparr>\<close>
    by (simp add: not_modified_def)
  show ?thesis
    using first second
      body_let_through_does_not_matter [OF boot_default _ _ first _ _ second alike,
        of Fulfilled "[DbSettles]"]
    by simp
qed

end
